theory Spec2Isabelle
  imports Main
begin

section \<open>The sysctl state: \<open>salt/states/sysctl.py\<close>\<close>

text \<open>
  The module has one public state function, \<open>present(name, value, config=None)\<close>.
  It reads the loader's function table \<open>__salt__\<close> and the option \<open>__opts__['test']\<close>,
  builds the dictionary \<open>ret\<close> and returns it. The embedding below follows the
  function line by line: Python values are a datatype, dictionaries are maps, the
  function table is a record of functions over an abstract system state, every call
  through the table is logged, and a raised exception is the left summand of the outcome.
\<close>

subsection \<open>Python values\<close>

text \<open>
  \<open>value\<close> comes from the state file; the module's own example is \<open>value: 20\<close>, a YAML
  integer, and a quoted value is a string. Both kinds are kept apart, because the code
  stores \<open>value\<close> in some places and \<open>str(value)\<close> in others.
\<close>

datatype pyval = PyInt int | PyStr string

text \<open>What a dictionary entry of \<open>ret\<close> can hold.\<close>

datatype pyobj = PyNone | PyBool bool | PyVal pyval | PyDict "string \<rightharpoonup> pyval"

type_synonym pydict = "string \<rightharpoonup> pyobj"

text \<open>Exceptions. Only \<open>CommandExecutionError\<close> is caught by \<open>present\<close>.\<close>

datatype exn = KeyError string | CommandExecutionError string | OtherException string

subsection \<open>\<open>str\<close>, \<open>in\<close> and \<open>split\<close>\<close>

text \<open>Decimal digits of a natural number, most significant first.\<close>

fun digits :: "nat \<Rightarrow> string" where
  "digits n =
     (if n < 10 then [''0123456789'' ! n]
      else digits (n div 10) @ [''0123456789'' ! (n mod 10)])"

declare digits.simps [simp del]

text \<open>\<open>str(x)\<close>: a string is itself, an integer is its decimal numeral.\<close>

fun py_str :: "pyval \<Rightarrow> string" where
  "py_str (PyStr s) = s"
| "py_str (PyInt i) = (if i < 0 then CHR ''-'' # digits (nat (- i)) else digits (nat i))"

text \<open>\<open>s.startswith(p)\<close> and the substring test \<open>sub in s\<close>.\<close>

fun startswith :: "string \<Rightarrow> string \<Rightarrow> bool" where
  "startswith s [] = True"
| "startswith [] (p # ps) = False"
| "startswith (c # cs) (p # ps) = (c = p \<and> startswith cs ps)"

fun py_in :: "string \<Rightarrow> string \<Rightarrow> bool" where
  "py_in sub [] = (sub = [])"
| "py_in sub (c # cs) = (startswith (c # cs) sub \<or> py_in sub cs)"

text \<open>
  \<open>s.split()\<close> with no separator: runs of whitespace separate the tokens, leading and
  trailing whitespace gives no empty token. The whitespace of a byte string is space,
  tab, line feed, vertical tab, form feed and carriage return.
\<close>

definition isspace :: "char \<Rightarrow> bool" where
  "isspace c = (c \<in> set [CHR '' '', CHR 0x09, CHR 0x0A, CHR 0x0B, CHR 0x0C, CHR 0x0D])"

fun split_from :: "string \<Rightarrow> string \<Rightarrow> string list" where
  "split_from tok [] = (if tok = [] then [] else [tok])"
| "split_from tok (c # cs) =
     (if isspace c then (if tok = [] then split_from [] cs else tok # split_from [] cs)
      else split_from (tok @ [c]) cs)"

definition str_split :: "string \<Rightarrow> string list" where
  "str_split s = split_from [] s"

subsection \<open>The function table \<open>__salt__\<close> and the call log\<close>

text \<open>
  The four execution-module functions \<open>present\<close> calls. They live outside this module,
  so they are parameters. \<open>'w\<close> is the state of the machine (kernel parameters and
  files). The three readers return a value and leave the state alone; \<open>sysctl.persist\<close>
  returns a status string or raises, and returns the new state.
  \<open>sysctl.default_config\<close> may be absent from the table
  (\<open>'sysctl.default_config' in __salt__\<close>).
\<close>

record 'w salt =
  sysctl_get :: "string \<Rightarrow> 'w \<Rightarrow> string"
  sysctl_default_config :: "('w \<Rightarrow> string) option"
  sysctl_show :: "string \<Rightarrow> 'w \<Rightarrow> (string \<rightharpoonup> string)"
  sysctl_persist :: "string \<Rightarrow> pyval \<Rightarrow> string \<Rightarrow> 'w \<Rightarrow> (exn + string) \<times> 'w"

text \<open>One entry of the log per call through \<open>__salt__\<close>, in the order of the calls.\<close>

datatype call =
    SysctlGet string
  | SysctlDefaultConfig
  | SysctlShow string
  | SysctlPersist string pyval string

fun is_show :: "call \<Rightarrow> bool" where
  "is_show (SysctlShow c) = True"
| "is_show _ = False"

fun is_persist :: "call \<Rightarrow> bool" where
  "is_persist (SysctlPersist n v c) = True"
| "is_persist _ = False"

fun is_default_config :: "call \<Rightarrow> bool" where
  "is_default_config SysctlDefaultConfig = True"
| "is_default_config _ = False"

text \<open>A run of \<open>present\<close>: what it returned or raised, the state it left, the calls it made.\<close>

type_synonym 'w run = "(exn + pydict) \<times> 'w \<times> call list"

subsection \<open>\<open>present\<close>\<close>

text \<open>Lines 47--50: the initial \<open>ret\<close>.\<close>

definition init_ret :: "string \<Rightarrow> pydict" where
  "init_ret name =
     [''name'' \<mapsto> PyVal (PyStr name),
      ''result'' \<mapsto> PyBool True,
      ''changes'' \<mapsto> PyDict Map.empty,
      ''comment'' \<mapsto> PyVal (PyStr '''')]"

text \<open>Lines 54--60: the configuration file, and the calls made to find it.\<close>

definition resolve_config :: "'w salt \<Rightarrow> string option \<Rightarrow> 'w \<Rightarrow> string \<times> call list" where
  "resolve_config salt config w =
     (case config of
        None \<Rightarrow>
          (case sysctl_default_config salt of
             Some default_config \<Rightarrow> (default_config w, [SysctlDefaultConfig])
           | None \<Rightarrow> (''/etc/sysctl.conf'', []))
      | Some c \<Rightarrow> (c, []))"

text \<open>
  Lines 47--123. \<open>opts_test\<close> is \<open>__opts__['test']\<close>. \<open>configured[name]\<close> raises
  \<open>KeyError\<close> when \<open>name\<close> is not a key of \<open>configured\<close>.
\<close>

definition present :: "'w salt \<Rightarrow> bool \<Rightarrow> string \<Rightarrow> pyval \<Rightarrow> string option \<Rightarrow> 'w \<Rightarrow> 'w run" where
  "present salt opts_test name value config w =
     (let ret = init_ret name;
          current = sysctl_get salt name w;
          calls = [SysctlGet name];
          (config, resolving) = resolve_config salt config w;
          calls = calls @ resolving
      in
        if py_in ''unknown oid'' current then
          (Inr (ret(''result'' \<mapsto> PyBool False,
                    ''comment'' \<mapsto> PyVal (PyStr ''This sysctl parameter is unknown to the system''))),
           w, calls)
        else if opts_test then
          (let configured = sysctl_show salt config w;
               calls = calls @ [SysctlShow config];
               memory_value_correct =
                 (str_split (py_str (PyStr current)) = str_split (py_str value))
           in
             case configured name of
               None \<Rightarrow> (Inl (KeyError name), w, calls)
             | Some persisted \<Rightarrow>
                 (let config_value_correct =
                        (str_split (py_str (PyStr persisted)) = str_split (py_str value))
                  in
                    if memory_value_correct \<and> config_value_correct then
                      (Inr (ret(''result'' \<mapsto> PyBool True,
                                ''comment'' \<mapsto> PyVal (PyStr
                                   (''Sysctl value '' @ name @ '' = '' @ py_str value
                                      @ '' is already set'')))),
                       w, calls)
                    else if memory_value_correct \<and> \<not> config_value_correct then
                      (Inr (ret(''result'' \<mapsto> PyNone,
                                ''changes'' \<mapsto> PyDict [''old'' \<mapsto> PyStr persisted, ''new'' \<mapsto> value],
                                ''comment'' \<mapsto> PyVal (PyStr
                                   (''Sysctl value is currently set on the running system but not ''
                                      @ ''correct in config file. Will adjust config file accordingly.'')))),
                       w, calls)
                    else if \<not> memory_value_correct \<and> config_value_correct then
                      (Inr (ret(''result'' \<mapsto> PyNone,
                                ''changes'' \<mapsto> PyDict [''old'' \<mapsto> PyStr (py_str (PyStr current)),
                                                         ''new'' \<mapsto> PyStr (py_str value)],
                                ''comment'' \<mapsto> PyVal (PyStr
                                   (''Current running sysctl configuration is different from config. ''
                                      @ ''Will adjust running sysctl value.'')))),
                       w, calls)
                    else
                      (Inr (ret(''result'' \<mapsto> PyNone,
                                ''changes'' \<mapsto> PyDict [''new'' \<mapsto> value],
                                ''comment'' \<mapsto> PyVal (PyStr ''Sysctl option set to be changed.''))),
                       w, calls)))
        else
          (let (raised_or_update, w') = sysctl_persist salt name value config w;
               calls = calls @ [SysctlPersist name value config]
           in
             case raised_or_update of
               Inl e \<Rightarrow>
                 (case e of
                    CommandExecutionError exc \<Rightarrow>
                      (Inr (ret(''result'' \<mapsto> PyBool False,
                                ''comment'' \<mapsto> PyVal (PyStr
                                   (''Failed to set '' @ name @ '' to '' @ py_str value
                                      @ '': '' @ exc)))),
                       w', calls)
                  | _ \<Rightarrow> (Inl e, w', calls))
             | Inr update \<Rightarrow>
                 if update = ''Updated'' then
                   (Inr (ret(''changes'' \<mapsto> PyDict [name \<mapsto> value],
                             ''comment'' \<mapsto> PyVal (PyStr
                                (''Updated sysctl value '' @ name @ '' = '' @ py_str value)))),
                    w', calls)
                 else if update = ''Already set'' then
                   (Inr (ret(''comment'' \<mapsto> PyVal (PyStr
                                (''Sysctl value '' @ name @ '' = '' @ py_str value
                                   @ '' is already set'')))),
                    w', calls)
                 else (Inr ret, w', calls)))"

subsection \<open>Reading a run\<close>

definition outcome_of :: "'w run \<Rightarrow> exn + pydict" where
  "outcome_of run = fst run"

definition state_of :: "'w run \<Rightarrow> 'w" where
  "state_of run = fst (snd run)"

definition calls_of :: "'w run \<Rightarrow> call list" where
  "calls_of run = snd (snd run)"


text \<open>A dictionary with the four keys of \<open>ret\<close>, for stating what \<open>present\<close> returns.\<close>

definition mk_ret :: "string \<Rightarrow> pyobj \<Rightarrow> (string \<rightharpoonup> pyval) \<Rightarrow> string \<Rightarrow> pydict" where
  "mk_ret name result changes comment =
     [''name'' \<mapsto> PyVal (PyStr name),
      ''result'' \<mapsto> result,
      ''changes'' \<mapsto> PyDict changes,
      ''comment'' \<mapsto> PyVal (PyStr comment)]"

subsection \<open>An example machine\<close>

text \<open>
  A small stand-in for the execution module, used to run \<open>present\<close> on concrete inputs:
  the kernel's parameters and the entries of each configuration file are maps.
  \<open>sysctl.get\<close> answers with an \<open>unknown oid\<close> message for a parameter the kernel does
  not have; \<open>sysctl.persist\<close> cannot open the empty path, reports \<open>Already set\<close> when
  both the kernel and the file hold the value, and otherwise writes both and reports
  \<open>Updated\<close>.
\<close>

record machine =
  kernel :: "string \<rightharpoonup> string"
  conf_files :: "string \<Rightarrow> (string \<rightharpoonup> string)"

definition example_salt :: "machine salt" where
  "example_salt =
     \<lparr> sysctl_get = (\<lambda>name w.
         case kernel w name of
           Some current \<Rightarrow> current
         | None \<Rightarrow> ''sysctl: unknown oid '' @ name),
       sysctl_default_config = Some (\<lambda>w. ''/etc/sysctl.d/99-salt.conf''),
       sysctl_show = (\<lambda>config w. conf_files w config),
       sysctl_persist = (\<lambda>name value config w.
         if config = [] then (Inl (CommandExecutionError ''Could not open sysctl file''), w)
         else if kernel w name = Some (py_str value)
                   \<and> conf_files w config name = Some (py_str value)
           then (Inr ''Already set'', w)
         else (Inr ''Updated'',
               w\<lparr> kernel := (kernel w)(name \<mapsto> py_str value),
                  conf_files :=
                    (conf_files w)(config := (conf_files w config)(name \<mapsto> py_str value)) \<rparr>)) \<rparr>"

text \<open>The same table with a \<open>sysctl.persist\<close> that answers with a fixed status string.\<close>

definition token_salt :: "string \<Rightarrow> machine salt" where
  "token_salt token = example_salt\<lparr> sysctl_persist := (\<lambda>name value config w. (Inr token, w)) \<rparr>"

text \<open>
  A machine with one kernel parameter; every configuration file holds the given entry
  for it, or no entry at all.
\<close>

definition example_machine :: "string \<Rightarrow> string \<Rightarrow> string option \<Rightarrow> machine" where
  "example_machine name current persisted =
     \<lparr> kernel = [name \<mapsto> current],
       conf_files = (\<lambda>path. case persisted of
                               Some p \<Rightarrow> [name \<mapsto> p]
                             | None \<Rightarrow> Map.empty) \<rparr>"

section \<open>Properties of \<open>present\<close>\<close>

subsection \<open>Auxiliary facts\<close>

lemma init_ret_mk: "init_ret name = mk_ret name (PyBool True) Map.empty ''''"
  by (simp add: init_ret_def mk_ret_def)

lemma mk_ret_result_comment:
  "(mk_ret name r ch c)(''result'' \<mapsto> r', ''comment'' \<mapsto> PyVal (PyStr c'))
     = mk_ret name r' ch c'"
  by (rule ext) (simp add: mk_ret_def)

lemma mk_ret_result_changes_comment:
  "(mk_ret name r ch c)(''result'' \<mapsto> r', ''changes'' \<mapsto> PyDict ch',
       ''comment'' \<mapsto> PyVal (PyStr c'))
     = mk_ret name r' ch' c'"
  by (rule ext) (simp add: mk_ret_def)

lemma mk_ret_changes_comment:
  "(mk_ret name r ch c)(''changes'' \<mapsto> PyDict ch', ''comment'' \<mapsto> PyVal (PyStr c'))
     = mk_ret name r ch' c'"
  by (rule ext) (simp add: mk_ret_def)

lemma mk_ret_comment:
  "(mk_ret name r ch c)(''comment'' \<mapsto> PyVal (PyStr c')) = mk_ret name r ch c'"
  by (rule ext) (simp add: mk_ret_def)

lemmas mk_ret_simps = init_ret_mk mk_ret_result_comment mk_ret_result_changes_comment
  mk_ret_changes_comment mk_ret_comment

lemma mk_ret_lookup:
  "mk_ret name r ch c ''name'' = Some (PyVal (PyStr name))"
  "mk_ret name r ch c ''result'' = Some r"
  "mk_ret name r ch c ''changes'' = Some (PyDict ch)"
  "mk_ret name r ch c ''comment'' = Some (PyVal (PyStr c))"
  by (simp_all add: mk_ret_def)

lemma dom_mk_ret: "dom (mk_ret name r ch c) = {''name'', ''result'', ''changes'', ''comment''}"
  by (auto simp: mk_ret_def)

lemma resolve_config_calls:
  "snd (resolve_config salt config w) =
     (if config = None \<and> sysctl_default_config salt \<noteq> None then [SysctlDefaultConfig] else [])"
  by (simp add: resolve_config_def split: option.splits)

text \<open>The ways through \<open>present\<close>, each as one equation.\<close>

lemma present_unknown:
  assumes "py_in ''unknown oid'' (sysctl_get salt name w)"
  shows "present salt opts_test name v config w =
    (Inr (mk_ret name (PyBool False) Map.empty ''This sysctl parameter is unknown to the system''),
     w, SysctlGet name # snd (resolve_config salt config w))"
  using assms by (simp add: present_def mk_ret_simps case_prod_unfold)

lemma present_test_known:
  assumes "\<not> py_in ''unknown oid'' (sysctl_get salt name w)"
    and "sysctl_show salt (fst (resolve_config salt config w)) w name = Some persisted"
  shows "present salt True name v config w =
    (Inr (let memOK = (str_split (sysctl_get salt name w) = str_split (py_str v));
              fileOK = (str_split persisted = str_split (py_str v))
          in if memOK \<and> fileOK then
               mk_ret name (PyBool True) Map.empty
                 (''Sysctl value '' @ name @ '' = '' @ py_str v @ '' is already set'')
             else if memOK then
               mk_ret name PyNone [''old'' \<mapsto> PyStr persisted, ''new'' \<mapsto> v]
                 (''Sysctl value is currently set on the running system but not ''
                    @ ''correct in config file. Will adjust config file accordingly.'')
             else if fileOK then
               mk_ret name PyNone
                 [''old'' \<mapsto> PyStr (sysctl_get salt name w), ''new'' \<mapsto> PyStr (py_str v)]
                 (''Current running sysctl configuration is different from config. ''
                    @ ''Will adjust running sysctl value.'')
             else
               mk_ret name PyNone [''new'' \<mapsto> v] ''Sysctl option set to be changed.''),
     w,
     SysctlGet name # snd (resolve_config salt config w)
       @ [SysctlShow (fst (resolve_config salt config w))])"
  using assms by (simp add: present_def mk_ret_simps case_prod_unfold Let_def)

lemma present_test_missing:
  assumes "\<not> py_in ''unknown oid'' (sysctl_get salt name w)"
    and "sysctl_show salt (fst (resolve_config salt config w)) w name = None"
  shows "present salt True name v config w =
    (Inl (KeyError name), w,
     SysctlGet name # snd (resolve_config salt config w)
       @ [SysctlShow (fst (resolve_config salt config w))])"
  using assms by (simp add: present_def mk_ret_simps case_prod_unfold Let_def)

lemma present_apply_returned:
  assumes "\<not> py_in ''unknown oid'' (sysctl_get salt name w)"
    and "sysctl_persist salt name v (fst (resolve_config salt config w)) w = (Inr update, w')"
  shows "present salt False name v config w =
    (Inr (if update = ''Updated'' then
            mk_ret name (PyBool True) [name \<mapsto> v]
              (''Updated sysctl value '' @ name @ '' = '' @ py_str v)
          else if update = ''Already set'' then
            mk_ret name (PyBool True) Map.empty
              (''Sysctl value '' @ name @ '' = '' @ py_str v @ '' is already set'')
          else mk_ret name (PyBool True) Map.empty ''''),
     w',
     SysctlGet name # snd (resolve_config salt config w)
       @ [SysctlPersist name v (fst (resolve_config salt config w))])"
  using assms by (simp add: present_def mk_ret_simps case_prod_unfold Let_def)

lemma present_apply_raised:
  assumes "\<not> py_in ''unknown oid'' (sysctl_get salt name w)"
    and "sysctl_persist salt name v (fst (resolve_config salt config w)) w = (Inl e, w')"
  shows "present salt False name v config w =
    ((case e of
        CommandExecutionError exc \<Rightarrow>
          Inr (mk_ret name (PyBool False) Map.empty
                 (''Failed to set '' @ name @ '' to '' @ py_str v @ '': '' @ exc))
      | _ \<Rightarrow> Inl e),
     w',
     SysctlGet name # snd (resolve_config salt config w)
       @ [SysctlPersist name v (fst (resolve_config salt config w))])"
  using assms
  by (simp add: present_def mk_ret_simps case_prod_unfold Let_def split: exn.splits)

text \<open>Evaluating the example machine.\<close>

lemma digits_20: "digits 20 = ''20''"
  by (simp add: digits.simps)

lemma example_salt_simps:
  "sysctl_get example_salt name w =
     (case kernel w name of
        Some current \<Rightarrow> current
      | None \<Rightarrow> ''sysctl: unknown oid '' @ name)"
  "sysctl_default_config example_salt = Some (\<lambda>w. ''/etc/sysctl.d/99-salt.conf'')"
  "sysctl_show example_salt config w = conf_files w config"
  by (simp_all add: example_salt_def)

lemma example_resolve:
  "resolve_config example_salt None w = (''/etc/sysctl.d/99-salt.conf'', [SysctlDefaultConfig])"
  "resolve_config example_salt (Some c) w = (c, [])"
  by (simp_all add: resolve_config_def example_salt_def)

lemma example_machine_simps:
  "kernel (example_machine name current persisted) name = Some current"
  "conf_files (example_machine name current (Some p)) path name = Some p"
  "conf_files (example_machine name current None) path n = None"
  by (simp_all add: example_machine_def)

lemmas example_simps = example_salt_simps example_resolve example_machine_simps

subsection \<open>The unknown parameter\<close>

text \<open>
  Claim C2. Whatever the name, the value, the configuration file and the mode: when
  \<open>sysctl.get\<close> answers with a string that contains \<open>unknown oid\<close>, \<open>present\<close> returns
  \<open>ret\<close> with result \<open>False\<close>, no changes and the comment
  \<open>This sysctl parameter is unknown to the system\<close>; the state is untouched and neither
  \<open>sysctl.show\<close> nor \<open>sysctl.persist\<close> has been called.
\<close>

theorem present_unknown_oid:
  assumes "py_in ''unknown oid'' (sysctl_get salt name w)"
  shows "outcome_of (present salt opts_test name v config w) =
           Inr (mk_ret name (PyBool False) Map.empty
                  ''This sysctl parameter is unknown to the system'')
         \<and> state_of (present salt opts_test name v config w) = w
         \<and> \<not> list_ex is_show (calls_of (present salt opts_test name v config w))
         \<and> \<not> list_ex is_persist (calls_of (present salt opts_test name v config w))"
  by (simp add: present_unknown [OF assms] outcome_of_def state_of_def calls_of_def
        resolve_config_calls)

theorem present_unknown_oid_witness:
  "py_in ''unknown oid'' (sysctl_get example_salt ''vm.swapiness'' (example_machine ''vm.swappiness'' ''60'' None))
   \<and> outcome_of (present example_salt False ''vm.swapiness'' (PyInt 20) None
                   (example_machine ''vm.swappiness'' ''60'' None)) =
       Inr (mk_ret ''vm.swapiness'' (PyBool False) Map.empty
              ''This sysctl parameter is unknown to the system'')
   \<and> state_of (present example_salt False ''vm.swapiness'' (PyInt 20) None
                 (example_machine ''vm.swappiness'' ''60'' None)) =
       example_machine ''vm.swappiness'' ''60'' None
   \<and> \<not> list_ex is_show (calls_of (present example_salt False ''vm.swapiness'' (PyInt 20) None
                                    (example_machine ''vm.swappiness'' ''60'' None)))
   \<and> \<not> list_ex is_persist (calls_of (present example_salt False ''vm.swapiness'' (PyInt 20) None
                                       (example_machine ''vm.swappiness'' ''60'' None)))"
proof -
  have unknown: "py_in ''unknown oid''
      (sysctl_get example_salt ''vm.swapiness'' (example_machine ''vm.swappiness'' ''60'' None))"
    by (simp add: example_salt_simps example_machine_def)
  show ?thesis
    using unknown present_unknown_oid [OF unknown, of False "PyInt 20" None]
    by simp
qed

subsection \<open>Apply mode\<close>

text \<open>
  Claim C4. In apply mode, for a parameter the system knows, the status string of
  \<open>sysctl.persist\<close> decides the result. \<open>Updated\<close>: result \<open>True\<close>, changes
  \<open>{name: value}\<close>, comment \<open>Updated sysctl value {name} = {value}\<close>. \<open>Already set\<close>:
  result \<open>True\<close>, no changes, the comment that the value is already set. Any other
  string: result \<open>True\<close> as initialised, no changes, the empty comment; it is no error.
\<close>

theorem present_apply_status:
  assumes "\<not> py_in ''unknown oid'' (sysctl_get salt name w)"
    and "sysctl_persist salt name v (fst (resolve_config salt config w)) w = (Inr update, w')"
  shows "outcome_of (present salt False name v config w) =
           Inr (if update = ''Updated'' then
                  mk_ret name (PyBool True) [name \<mapsto> v]
                    (''Updated sysctl value '' @ name @ '' = '' @ py_str v)
                else if update = ''Already set'' then
                  mk_ret name (PyBool True) Map.empty
                    (''Sysctl value '' @ name @ '' = '' @ py_str v @ '' is already set'')
                else mk_ret name (PyBool True) Map.empty '''')"
  by (simp add: present_apply_returned [OF assms] outcome_of_def)

theorem present_apply_status_witness:
  "outcome_of (present example_salt False ''vm.swappiness'' (PyInt 20) None
                 (example_machine ''vm.swappiness'' ''60'' (Some ''60''))) =
     Inr (mk_ret ''vm.swappiness'' (PyBool True) [''vm.swappiness'' \<mapsto> PyInt 20]
            ''Updated sysctl value vm.swappiness = 20'')
   \<and> outcome_of (present example_salt False ''vm.swappiness'' (PyInt 20) None
                   (example_machine ''vm.swappiness'' ''20'' (Some ''20''))) =
       Inr (mk_ret ''vm.swappiness'' (PyBool True) Map.empty
              ''Sysctl value vm.swappiness = 20 is already set'')
   \<and> outcome_of (present (token_salt ''Skipped'') False ''vm.swappiness'' (PyInt 20) None
                   (example_machine ''vm.swappiness'' ''60'' (Some ''60''))) =
       Inr (mk_ret ''vm.swappiness'' (PyBool True) Map.empty '''')"
proof -
  let ?path = "''/etc/sysctl.d/99-salt.conf''"
  let ?old = "example_machine ''vm.swappiness'' ''60'' (Some ''60'')"
  let ?set = "example_machine ''vm.swappiness'' ''20'' (Some ''20'')"
  have known: "\<not> py_in ''unknown oid'' (sysctl_get example_salt ''vm.swappiness'' ?old)"
    "\<not> py_in ''unknown oid'' (sysctl_get example_salt ''vm.swappiness'' ?set)"
    "\<not> py_in ''unknown oid'' (sysctl_get (token_salt ''Skipped'') ''vm.swappiness'' ?old)"
    by (simp_all add: example_simps token_salt_def)
  have updated: "\<exists>w'. sysctl_persist example_salt ''vm.swappiness'' (PyInt 20)
           (fst (resolve_config example_salt None ?old)) ?old = (Inr ''Updated'', w')"
    by (simp add: example_simps) (simp add: example_salt_def example_machine_def digits_20)
  have already: "sysctl_persist example_salt ''vm.swappiness'' (PyInt 20)
           (fst (resolve_config example_salt None ?set)) ?set = (Inr ''Already set'', ?set)"
    by (simp add: example_simps) (simp add: example_salt_def example_machine_def digits_20)
  have skipped: "sysctl_persist (token_salt ''Skipped'') ''vm.swappiness'' (PyInt 20)
           (fst (resolve_config (token_salt ''Skipped'') None ?old)) ?old = (Inr ''Skipped'', ?old)"
    by (simp add: token_salt_def)
  from updated obtain w' where updated': "sysctl_persist example_salt ''vm.swappiness'' (PyInt 20)
           (fst (resolve_config example_salt None ?old)) ?old = (Inr ''Updated'', w')" ..
  show ?thesis
    using present_apply_status [OF known(1) updated']
      present_apply_status [OF known(2) already]
      present_apply_status [OF known(3) skipped]
    by (simp add: digits_20)
qed

text \<open>
  Claim C5. In apply mode, when \<open>sysctl.persist\<close> raises \<open>CommandExecutionError\<close>,
  \<open>present\<close> catches it and returns \<open>ret\<close> with result \<open>False\<close>, no changes and the
  comment \<open>Failed to set {name} to {value}: {error}\<close>, which holds the name, the value
  and the text of the error; nothing is raised to the caller.
\<close>

theorem present_apply_persist_failure:
  assumes "\<not> py_in ''unknown oid'' (sysctl_get salt name w)"
    and "sysctl_persist salt name v (fst (resolve_config salt config w)) w
           = (Inl (CommandExecutionError exc), w')"
  shows "outcome_of (present salt False name v config w) =
           Inr (mk_ret name (PyBool False) Map.empty
                  (''Failed to set '' @ name @ '' to '' @ py_str v @ '': '' @ exc))"
  by (simp add: present_apply_raised [OF assms] outcome_of_def)

theorem present_apply_persist_failure_witness:
  "outcome_of (present example_salt False ''vm.swappiness'' (PyInt 20) (Some '''')
                 (example_machine ''vm.swappiness'' ''60'' None)) =
     Inr (mk_ret ''vm.swappiness'' (PyBool False) Map.empty
            ''Failed to set vm.swappiness to 20: Could not open sysctl file'')"
proof -
  let ?w = "example_machine ''vm.swappiness'' ''60'' None"
  have known: "\<not> py_in ''unknown oid'' (sysctl_get example_salt ''vm.swappiness'' ?w)"
    by (simp add: example_simps)
  have raised: "sysctl_persist example_salt ''vm.swappiness'' (PyInt 20)
           (fst (resolve_config example_salt (Some '''') ?w)) ?w
           = (Inl (CommandExecutionError ''Could not open sysctl file''), ?w)"
    by (simp add: example_simps) (simp add: example_salt_def)
  show ?thesis
    using present_apply_persist_failure [OF known raised]
    by (simp add: digits_20)
qed

subsection \<open>Test mode\<close>




text \<open>
  Claim C3. In test mode \<open>present\<close> never calls \<open>sysctl.persist\<close>, whatever the input
  and whether it returns or raises: the calls are \<open>sysctl.get\<close>, then
  \<open>sysctl.default_config\<close> when no file was given and the table has it, then
  \<open>sysctl.show\<close> once when the parameter is known; the state of the machine is the one
  it started in.
\<close>

theorem present_test_never_persists:
  "\<not> list_ex is_persist (calls_of (present salt True name v config w))
   \<and> calls_of (present salt True name v config w) =
       SysctlGet name
         # (if config = None \<and> sysctl_default_config salt \<noteq> None
            then [SysctlDefaultConfig] else [])
         @ (if py_in ''unknown oid'' (sysctl_get salt name w) then []
            else [SysctlShow (fst (resolve_config salt config w))])
   \<and> state_of (present salt True name v config w) = w"
proof (cases "py_in ''unknown oid'' (sysctl_get salt name w)")
  case True
  then show ?thesis
    by (simp add: present_unknown calls_of_def state_of_def resolve_config_calls)
next
  case known: False
  show ?thesis
  proof (cases "sysctl_show salt (fst (resolve_config salt config w)) w name")
    case None
    with known show ?thesis
      by (simp add: present_test_missing calls_of_def state_of_def resolve_config_calls)
  next
    case (Some persisted)
    with known show ?thesis
      by (simp add: present_test_known calls_of_def state_of_def resolve_config_calls)
  qed
qed

theorem present_test_never_persists_witness:
  "\<not> list_ex is_persist (calls_of (present example_salt True ''vm.swappiness'' (PyInt 20) None
                                     (example_machine ''vm.swappiness'' ''60'' (Some ''60''))))
   \<and> calls_of (present example_salt True ''vm.swappiness'' (PyInt 20) None
                 (example_machine ''vm.swappiness'' ''60'' (Some ''60''))) =
       [SysctlGet ''vm.swappiness'', SysctlDefaultConfig, SysctlShow ''/etc/sysctl.d/99-salt.conf'']
   \<and> state_of (present example_salt True ''vm.swappiness'' (PyInt 20) None
                 (example_machine ''vm.swappiness'' ''60'' (Some ''60''))) =
       example_machine ''vm.swappiness'' ''60'' (Some ''60'')"
  using present_test_never_persists [of example_salt "''vm.swappiness''" "PyInt 20" None
      "example_machine ''vm.swappiness'' ''60'' (Some ''60'')"]
  by (simp add: example_simps)

text \<open>
  Claim C6 says that the lookup of the persisted value cannot raise. It does: with
  \<open>vm.swappiness\<close> known to the kernel and a configuration file that has no entry for
  it, \<open>configured[name]\<close> raises \<open>KeyError\<close> and \<open>present\<close> returns nothing.
\<close>

theorem present_test_missing_key_raises:
  "present example_salt True ''vm.swappiness'' (PyStr ''20'') None
     (example_machine ''vm.swappiness'' ''60'' None)
   = (Inl (KeyError ''vm.swappiness''),
      example_machine ''vm.swappiness'' ''60'' None,
      [SysctlGet ''vm.swappiness'', SysctlDefaultConfig,
       SysctlShow ''/etc/sysctl.d/99-salt.conf''])"
proof -
  let ?w = "example_machine ''vm.swappiness'' ''60'' None"
  have known: "\<not> py_in ''unknown oid'' (sysctl_get example_salt ''vm.swappiness'' ?w)"
    by (simp add: example_simps)
  have missing: "sysctl_show example_salt (fst (resolve_config example_salt None ?w)) ?w
      ''vm.swappiness'' = None"
    by (simp add: example_simps)
  show ?thesis
    by (simp add: present_test_missing [OF known missing] example_simps)
qed

subsection \<open>The order of the calls\<close>

text \<open>
  Claim C7, as the code has it. The configuration file is resolved (lines 54--60)
  before the current value is tested for \<open>unknown oid\<close> (line 62), and that test comes
  before \<open>sysctl.show\<close> and \<open>sysctl.persist\<close>. So for every input the calls are
  \<open>sysctl.get\<close>, then \<open>sysctl.default_config\<close> when no file was given and the table has
  it, then nothing for an unknown parameter, \<open>sysctl.show\<close> in test mode and
  \<open>sysctl.persist\<close> in apply mode; and for an unknown parameter the failure is returned.
\<close>

theorem present_call_order:
  "calls_of (present salt opts_test name v config w) =
     SysctlGet name
       # (if config = None \<and> sysctl_default_config salt \<noteq> None
          then [SysctlDefaultConfig] else [])
       @ (if py_in ''unknown oid'' (sysctl_get salt name w) then []
          else if opts_test then [SysctlShow (fst (resolve_config salt config w))]
          else [SysctlPersist name v (fst (resolve_config salt config w))])
   \<and> (py_in ''unknown oid'' (sysctl_get salt name w) \<longrightarrow>
        outcome_of (present salt opts_test name v config w) =
          Inr (mk_ret name (PyBool False) Map.empty
                 ''This sysctl parameter is unknown to the system''))"
proof (cases "py_in ''unknown oid'' (sysctl_get salt name w)")
  case True
  then show ?thesis
    by (simp add: present_unknown calls_of_def outcome_of_def resolve_config_calls)
next
  case known: False
  show ?thesis
  proof (cases opts_test)
    case True
    show ?thesis
    proof (cases "sysctl_show salt (fst (resolve_config salt config w)) w name")
      case None
      with known True show ?thesis
        by (simp add: present_test_missing calls_of_def resolve_config_calls)
    next
      case (Some persisted)
      with known True show ?thesis
        by (simp add: present_test_known calls_of_def resolve_config_calls)
    qed
  next
    case False
    obtain r w' where persist:
      "sysctl_persist salt name v (fst (resolve_config salt config w)) w = (r, w')"
      by (cases "sysctl_persist salt name v (fst (resolve_config salt config w)) w")
    show ?thesis
    proof (cases r)
      case (Inl e)
      with known False persist show ?thesis
        by (simp add: present_apply_raised calls_of_def resolve_config_calls)
    next
      case (Inr update)
      with known False persist show ?thesis
        by (simp add: present_apply_returned calls_of_def resolve_config_calls)
    qed
  qed
qed

theorem present_call_order_witness:
  "calls_of (present example_salt False ''vm.swapiness'' (PyInt 20) None
               (example_machine ''vm.swappiness'' ''60'' None)) =
     [SysctlGet ''vm.swapiness'', SysctlDefaultConfig]
   \<and> py_in ''unknown oid''
        (sysctl_get example_salt ''vm.swapiness'' (example_machine ''vm.swappiness'' ''60'' None))
   \<and> outcome_of (present example_salt False ''vm.swapiness'' (PyInt 20) None
                   (example_machine ''vm.swappiness'' ''60'' None)) =
       Inr (mk_ret ''vm.swapiness'' (PyBool False) Map.empty
              ''This sysctl parameter is unknown to the system'')"
proof -
  have unknown: "py_in ''unknown oid''
      (sysctl_get example_salt ''vm.swapiness'' (example_machine ''vm.swappiness'' ''60'' None))"
    by (simp add: example_salt_simps example_machine_def)
  show ?thesis
    using unknown present_call_order [of example_salt False "''vm.swapiness''" "PyInt 20" None
        "example_machine ''vm.swappiness'' ''60'' None"]
    by (simp add: example_salt_simps)
qed

text \<open>
  C7 as written has the failure returned without \<open>sysctl.default_config\<close> being
  consulted. On the example machine, with no file given and a parameter the kernel does
  not have, the call is in the log.
\<close>

theorem present_unknown_default_config_counterexample:
  "py_in ''unknown oid''
     (sysctl_get example_salt ''vm.swapiness'' (example_machine ''vm.swappiness'' ''60'' None))
   \<and> list_ex is_default_config
        (calls_of (present example_salt True ''vm.swapiness'' (PyInt 20) None
                     (example_machine ''vm.swappiness'' ''60'' None)))"
proof -
  have unknown: "py_in ''unknown oid''
      (sysctl_get example_salt ''vm.swapiness'' (example_machine ''vm.swappiness'' ''60'' None))"
    by (simp add: example_salt_simps example_machine_def)
  show ?thesis
    using unknown by (simp add: present_unknown [OF unknown] calls_of_def example_simps)
qed

subsection \<open>The dictionary \<open>ret\<close>\<close>



text \<open>
  Claim C10. Every \<open>ret\<close> that \<open>present\<close> returns has exactly the four keys \<open>name\<close>,
  \<open>result\<close>, \<open>changes\<close> and \<open>comment\<close>, and under \<open>name\<close> the argument \<open>name\<close> as a
  string, unchanged. The four keys are those of the initial dictionary, which is built
  from \<open>name\<close> alone, before any call through \<open>__salt__\<close>, and the entry \<open>name\<close> is the
  one put there.
\<close>

theorem present_ret_name:
  assumes "outcome_of (present salt opts_test name v config w) = Inr ret"
  shows "ret ''name'' = Some (PyVal (PyStr name))
         \<and> dom ret = {''name'', ''result'', ''changes'', ''comment''}
         \<and> dom ret = dom (init_ret name)
         \<and> ret ''name'' = init_ret name ''name''"
proof -
  have "\<exists>r ch c. ret = mk_ret name r ch c"
  proof (cases "py_in ''unknown oid'' (sysctl_get salt name w)")
    case True
    with assms show ?thesis
      by (auto simp: present_unknown outcome_of_def)
  next
    case known: False
    show ?thesis
    proof (cases opts_test)
      case True
      show ?thesis
      proof (cases "sysctl_show salt (fst (resolve_config salt config w)) w name")
        case None
        with known True assms show ?thesis
          by (simp add: present_test_missing outcome_of_def)
      next
        case (Some persisted)
        with known True assms show ?thesis
          by (auto simp: present_test_known outcome_of_def Let_def split: if_splits)
      qed
    next
      case False
      obtain r w' where persist:
        "sysctl_persist salt name v (fst (resolve_config salt config w)) w = (r, w')"
        by (cases "sysctl_persist salt name v (fst (resolve_config salt config w)) w")
      show ?thesis
      proof (cases r)
        case (Inl e)
        with known False persist assms show ?thesis
          by (cases e) (auto simp: present_apply_raised outcome_of_def)
      next
        case (Inr update)
        with known False persist assms show ?thesis
          by (auto simp: present_apply_returned outcome_of_def split: if_splits)
      qed
    qed
  qed
  then obtain r ch c where "ret = mk_ret name r ch c"
    by blast
  then show ?thesis
    by (simp add: mk_ret_lookup dom_mk_ret init_ret_mk)
qed

theorem present_ret_name_witness:
  "outcome_of (present example_salt False ''vm.swappiness'' (PyInt 20) None
                 (example_machine ''vm.swappiness'' ''60'' (Some ''60''))) =
     Inr (mk_ret ''vm.swappiness'' (PyBool True) [''vm.swappiness'' \<mapsto> PyInt 20]
            ''Updated sysctl value vm.swappiness = 20'')
   \<and> mk_ret ''vm.swappiness'' (PyBool True) [''vm.swappiness'' \<mapsto> PyInt 20]
         ''Updated sysctl value vm.swappiness = 20'' ''name''
       = Some (PyVal (PyStr ''vm.swappiness''))
   \<and> dom (mk_ret ''vm.swappiness'' (PyBool True) [''vm.swappiness'' \<mapsto> PyInt 20]
            ''Updated sysctl value vm.swappiness = 20'')
       = {''name'', ''result'', ''changes'', ''comment''}"
proof -
  let ?w = "example_machine ''vm.swappiness'' ''60'' (Some ''60'')"
  have known: "\<not> py_in ''unknown oid'' (sysctl_get example_salt ''vm.swappiness'' ?w)"
    by (simp add: example_simps)
  have "\<exists>w'. sysctl_persist example_salt ''vm.swappiness'' (PyInt 20)
           (fst (resolve_config example_salt None ?w)) ?w = (Inr ''Updated'', w')"
    by (simp add: example_simps) (simp add: example_salt_def example_machine_def digits_20)
  then obtain w' where updated: "sysctl_persist example_salt ''vm.swappiness'' (PyInt 20)
           (fst (resolve_config example_salt None ?w)) ?w = (Inr ''Updated'', w')" ..
  have returned: "outcome_of (present example_salt False ''vm.swappiness'' (PyInt 20) None ?w) =
      Inr (mk_ret ''vm.swappiness'' (PyBool True) [''vm.swappiness'' \<mapsto> PyInt 20]
             ''Updated sysctl value vm.swappiness = 20'')"
    by (simp add: present_apply_returned [OF known updated] outcome_of_def digits_20)
  show ?thesis
    using returned present_ret_name [OF returned] by simp
qed

subsection \<open>Applying twice\<close>

text \<open>
  Claim C9. In apply mode, for a parameter the system knows: in a state where
  \<open>sysctl.persist\<close> reports the value as \<open>Already set\<close> and writes nothing, which is the
  state a successful apply leaves, \<open>present\<close> returns result \<open>True\<close>, no changes and the
  comment that the value is already set, and leaves the state as it was; so the same
  holds however often the call is repeated.
\<close>

theorem present_apply_idempotent:
  assumes "\<not> py_in ''unknown oid'' (sysctl_get salt name w)"
    and "sysctl_persist salt name v (fst (resolve_config salt config w)) w
           = (Inr ''Already set'', w)"
  shows "outcome_of (present salt False name v config w) =
           Inr (mk_ret name (PyBool True) Map.empty
                  (''Sysctl value '' @ name @ '' = '' @ py_str v @ '' is already set''))
         \<and> state_of (present salt False name v config w) = w
         \<and> ((\<lambda>u. state_of (present salt False name v config u)) ^^ n) w = w"
proof -
  have once: "state_of (present salt False name v config w) = w"
    by (simp add: present_apply_returned [OF assms] state_of_def)
  have "((\<lambda>u. state_of (present salt False name v config u)) ^^ n) w = w"
    by (induction n) (simp_all add: once)
  with once show ?thesis
    by (simp add: present_apply_returned [OF assms] outcome_of_def)
qed

text \<open>
  On the example machine: the first apply of \<open>vm.swappiness = 20\<close> writes, the second
  and the two after it find the value already set and leave the machine alone.
\<close>

theorem present_apply_idempotent_witness:
  "state_of (present example_salt False ''vm.swappiness'' (PyStr ''20'') (Some ''/etc/sysctl.conf'')
               (example_machine ''vm.swappiness'' ''60'' None))
     = \<lparr> kernel = [''vm.swappiness'' \<mapsto> ''20''],
         conf_files = (\<lambda>path. Map.empty)(''/etc/sysctl.conf'' := [''vm.swappiness'' \<mapsto> ''20'']) \<rparr>
   \<and> outcome_of (present example_salt False ''vm.swappiness'' (PyStr ''20'') (Some ''/etc/sysctl.conf'')
        \<lparr> kernel = [''vm.swappiness'' \<mapsto> ''20''],
          conf_files = (\<lambda>path. Map.empty)(''/etc/sysctl.conf'' := [''vm.swappiness'' \<mapsto> ''20'']) \<rparr>)
     = Inr (mk_ret ''vm.swappiness'' (PyBool True) Map.empty
              ''Sysctl value vm.swappiness = 20 is already set'')
   \<and> ((\<lambda>u. state_of (present example_salt False ''vm.swappiness'' (PyStr ''20'')
                       (Some ''/etc/sysctl.conf'') u)) ^^ 3)
        \<lparr> kernel = [''vm.swappiness'' \<mapsto> ''20''],
          conf_files = (\<lambda>path. Map.empty)(''/etc/sysctl.conf'' := [''vm.swappiness'' \<mapsto> ''20'']) \<rparr>
     = \<lparr> kernel = [''vm.swappiness'' \<mapsto> ''20''],
         conf_files = (\<lambda>path. Map.empty)(''/etc/sysctl.conf'' := [''vm.swappiness'' \<mapsto> ''20'']) \<rparr>"
proof -
  let ?w0 = "example_machine ''vm.swappiness'' ''60'' None"
  let ?w1 = "\<lparr> kernel = [''vm.swappiness'' \<mapsto> ''20''],
      conf_files = (\<lambda>path. Map.empty)(''/etc/sysctl.conf'' := [''vm.swappiness'' \<mapsto> ''20'']) \<rparr>"
  have known0: "\<not> py_in ''unknown oid'' (sysctl_get example_salt ''vm.swappiness'' ?w0)"
    by (simp add: example_simps)
  have first: "sysctl_persist example_salt ''vm.swappiness'' (PyStr ''20'')
      (fst (resolve_config example_salt (Some ''/etc/sysctl.conf'') ?w0)) ?w0 = (Inr ''Updated'', ?w1)"
    by (simp add: example_simps) (simp add: example_salt_def example_machine_def)
  have known1: "\<not> py_in ''unknown oid'' (sysctl_get example_salt ''vm.swappiness'' ?w1)"
    by (simp add: example_simps)
  have second: "sysctl_persist example_salt ''vm.swappiness'' (PyStr ''20'')
      (fst (resolve_config example_salt (Some ''/etc/sysctl.conf'') ?w1)) ?w1
      = (Inr ''Already set'', ?w1)"
    by (simp add: example_simps) (simp add: example_salt_def)
  have applied: "state_of (present example_salt False ''vm.swappiness'' (PyStr ''20'')
      (Some ''/etc/sysctl.conf'') ?w0) = ?w1"
    by (simp add: present_apply_returned [OF known0 first] state_of_def)
  show ?thesis
    using applied present_apply_idempotent [OF known1 second, of 3]
    by simp
qed

end
